theory Spec2Isabelle
  imports Complex_Main
begin

section \<open>Data model\<close>

text \<open>
  Values of the Python program that come out of \<^verbatim>\<open>json.loads\<close>: the interpretation
  result \<^verbatim>\<open>analysis\<close>, the filter expression and the follow-up question are all of
  this type. A JSON object is an association list read with \<open>map_of\<close>.
\<close>

datatype pyval =
    PNone
  | PBool bool
  | PInt int
  | PFloat real
  | PStr string
  | PList "pyval list"
  | PDict "(string \<times> pyval) list"

text \<open>Exceptions: the class and the text that \<^verbatim>\<open>str(e)\<close> gives.\<close>

datatype exn_kind =
    TypeError | IndexError | KeyError | AttributeError | EOFError
  | JSONDecodeError | ProviderError | StoreError

datatype exn = Exn exn_kind string

fun exn_str :: "exn \<Rightarrow> string" where
  "exn_str (Exn k msg) = msg"

text \<open>A conversation turn, \<^verbatim>\<open>{"role": ..., "content": ...}\<close>.\<close>

record turn =
  role :: string
  content :: string

text \<open>The keyword arguments of \<^verbatim>\<open>litellm.completion\<close>.\<close>

record request =
  model :: string
  messages :: "turn list"
  temperature :: int
  api_key :: "string option"
  base_url :: "string option"

text \<open>
  The provider's response: \<open>choices\<close> holds, for each choice, its
  \<^verbatim>\<open>message.content\<close>, which is a string or \<^verbatim>\<open>None\<close>.
\<close>

record response =
  choices :: "string option list"

text \<open>
  A listing record is a document of the store: a dictionary from attribute names to
  values of the store's own types, kept opaque (\<open>'d\<close>).
\<close>

type_synonym 'd doc = "string \<rightharpoonup> 'd"

text \<open>
  The external collaborators and the process configuration. \<open>'w\<close> is the state of the
  outside world (the provider and the document store); every call on a collaborator
  takes it and returns it, so that nothing is assumed about their determinism.
  \<^item> \<open>completion\<close> is \<^verbatim>\<open>litellm.completion\<close>;
  \<^item> \<open>json_loads\<close> is \<^verbatim>\<open>json.loads\<close> on a string;
  \<^item> \<open>coll_find\<close> is \<^verbatim>\<open>list(collection.find(...))\<close>;
  \<^item> \<open>fmt\<close> is the text an f-string gives for a stored value;
  \<^item> the three remaining fields are the values of \<^verbatim>\<open>os.getenv\<close>.
\<close>

record ('w, 'd) env =
  completion :: "'w \<Rightarrow> request \<Rightarrow> (exn + response) \<times> 'w"
  json_loads :: "string \<Rightarrow> exn + pyval"
  coll_find :: "'w \<Rightarrow> pyval \<Rightarrow> (exn + 'd doc list) \<times> 'w"
  fmt :: "'d \<Rightarrow> string"
  litellm_api_key :: "string option"
  litellm_base_url :: "string option"
  azure_deployment_id :: "string option"

text \<open>What a turn does that is visible from outside, in the order it happens.\<close>

datatype event =
    LLMCall request
  | DBQuery pyval
  | Print pyval
  | Prompt string
  | StWrite pyval
  | StError string
  | StInfo pyval
  | StWarning string
  | StSubheader string
  | StMarkdown string
  | StStop

section \<open>Python primitives\<close>

abbreviation nl :: string where
  "nl \<equiv> [CHR 0x0A]"

abbreviation dq :: string where
  "dq \<equiv> [CHR 0x22]"

text \<open>
  Text is modelled as ASCII. \<open>is_space\<close> is \<^verbatim>\<open>str.isspace\<close> on one ASCII character,
  \<open>str_strip\<close> is \<^verbatim>\<open>str.strip()\<close> and \<open>str_lower\<close> is \<^verbatim>\<open>str.lower()\<close>.
\<close>

definition is_space :: "char \<Rightarrow> bool" where
  "is_space c = (c \<in> set [CHR 0x09, CHR 0x0A, CHR 0x0B, CHR 0x0C, CHR 0x0D,
                           CHR 0x1C, CHR 0x1D, CHR 0x1E, CHR 0x1F, CHR 0x20])"

definition str_strip :: "string \<Rightarrow> string" where
  "str_strip s = rev (dropWhile is_space (rev (dropWhile is_space s)))"

definition char_lower :: "char \<Rightarrow> char" where
  "char_lower c =
     (let n = (of_char c :: nat)
      in if 65 \<le> n \<and> n \<le> 90 then char_of (n + 32) else c)"

definition str_lower :: "string \<Rightarrow> string" where
  "str_lower s = map char_lower s"

text \<open>\<^verbatim>\<open>sep.join(xs)\<close>.\<close>

fun str_join :: "string \<Rightarrow> string list \<Rightarrow> string" where
  "str_join sep [] = []"
| "str_join sep [x] = x"
| "str_join sep (x # y # ys) = x @ sep @ str_join sep (y # ys)"

text \<open>Truth value of a value in a condition.\<close>

fun py_truthy :: "pyval \<Rightarrow> bool" where
  "py_truthy PNone = False"
| "py_truthy (PBool b) = b"
| "py_truthy (PInt i) = (i \<noteq> 0)"
| "py_truthy (PFloat x) = (x \<noteq> 0)"
| "py_truthy (PStr s) = (s \<noteq> [])"
| "py_truthy (PList xs) = (xs \<noteq> [])"
| "py_truthy (PDict kvs) = (kvs \<noteq> [])"

text \<open>
  \<^verbatim>\<open>v.get(k, d)\<close>: only a dictionary has the method; on every other value of
  \<open>pyval\<close> the attribute lookup raises AttributeError.
\<close>

fun dict_get :: "pyval \<Rightarrow> string \<Rightarrow> pyval \<Rightarrow> exn + pyval" where
  "dict_get (PDict kvs) k d = Inr (case map_of kvs k of None \<Rightarrow> d | Some v \<Rightarrow> v)"
| "dict_get v k d = Inl (Exn AttributeError ''object has no attribute get'')"

text \<open>\<^verbatim>\<open>v[k]\<close> on a dictionary: KeyError when the key is absent.\<close>

fun dict_item :: "pyval \<Rightarrow> string \<Rightarrow> exn + pyval" where
  "dict_item (PDict kvs) k =
     (case map_of kvs k of None \<Rightarrow> Inl (Exn KeyError k) | Some v \<Rightarrow> Inr v)"
| "dict_item v k = Inl (Exn TypeError ''indices must be integers'')"

text \<open>
  \<^verbatim>\<open>k in v\<close>. The program evaluates it only after \<^verbatim>\<open>v.get\<close> has succeeded, that
  is on a dictionary.
\<close>

fun dict_has :: "pyval \<Rightarrow> string \<Rightarrow> bool" where
  "dict_has (PDict kvs) k = (map_of kvs k \<noteq> None)"
| "dict_has v k = False"

text \<open>A string or \<^verbatim>\<open>None\<close> as a value.\<close>

fun of_opt_str :: "string option \<Rightarrow> pyval" where
  "of_opt_str None = PNone"
| "of_opt_str (Some s) = PStr s"

section \<open>The query interpreter (agent.py)\<close>

text \<open>
  The instruction prompt is a fixed text; no claim depends on its wording, so it is a
  constant of the model that only stands for it.
\<close>

definition SYSTEM_PROMPT :: string where
  "SYSTEM_PROMPT = ''You are an expert real estate assistant that converts search queries into MongoDB filters.''"

text \<open>\<^verbatim>\<open>"azure/" + azure_deployment_id\<close>: a TypeError when the variable is unset.\<close>

definition model_name :: "string option \<Rightarrow> exn + string" where
  "model_name dep =
     (case dep of
        None \<Rightarrow> Inl (Exn TypeError ''can only concatenate str to str'')
      | Some d \<Rightarrow> Inr (''azure/'' @ d))"

definition build_messages :: "string \<Rightarrow> turn list \<Rightarrow> turn list" where
  "build_messages query conversation_history =
     [\<lparr>role = ''system'', content = SYSTEM_PROMPT\<rparr>] @ conversation_history
       @ [\<lparr>role = ''user'', content = query\<rparr>]"

text \<open>
  The body of the \<^verbatim>\<open>try\<close> block: \<^verbatim>\<open>response.choices[0].message.content\<close> and
  \<^verbatim>\<open>json.loads\<close> of it. \<^verbatim>\<open>json.loads(None)\<close> raises TypeError.
\<close>

definition first_content :: "response \<Rightarrow> exn + string option" where
  "first_content r =
     (case choices r of
        [] \<Rightarrow> Inl (Exn IndexError ''list index out of range'')
      | c # cs \<Rightarrow> Inr c)"

definition try_parse :: "(string \<Rightarrow> exn + pyval) \<Rightarrow> response \<Rightarrow> exn + pyval" where
  "try_parse loads r =
     (case first_content r of
        Inl e \<Rightarrow> Inl e
      | Inr None \<Rightarrow> Inl (Exn TypeError ''the JSON object must be str, bytes or bytearray, not NoneType'')
      | Inr (Some s) \<Rightarrow> loads s)"

text \<open>
  The \<^verbatim>\<open>except\<close> handler. It reads \<^verbatim>\<open>response.choices[0]\<close> again, outside any
  \<^verbatim>\<open>try\<close>, so an empty \<open>choices\<close> raises from the handler.
\<close>

definition failed :: "exn \<Rightarrow> response \<Rightarrow> exn + pyval" where
  "failed e r =
     (case first_content r of
        Inl e' \<Rightarrow> Inl e'
      | Inr c \<Rightarrow>
          Inr (PDict [(''status'', PStr ''error''), (''error'', PStr (exn_str e)),
                      (''raw_response'', of_opt_str c)]))"

text \<open>
  \<open>analyze_query\<close> returns the events, the result (or the exception it raises) and the
  world after the call.
\<close>

definition analyze_query ::
  "('w, 'd) env \<Rightarrow> 'w \<Rightarrow> string \<Rightarrow> turn list \<Rightarrow> event list \<times> (exn + pyval) \<times> 'w" where
  "analyze_query E w query conversation_history =
     (case model_name (azure_deployment_id E) of
        Inl e \<Rightarrow> ([], Inl e, w)
      | Inr m \<Rightarrow>
          (let req = \<lparr>model = m, messages = build_messages query conversation_history,
                      temperature = 0, api_key = litellm_api_key E,
                      base_url = litellm_base_url E\<rparr>
           in case completion E w req of
                (Inl e, w') \<Rightarrow> ([LLMCall req], Inl e, w')
              | (Inr r, w') \<Rightarrow>
                  ([LLMCall req],
                   (case try_parse (json_loads E) r of
                      Inr v \<Rightarrow> Inr v
                    | Inl e \<Rightarrow> failed e r),
                   w')))"

section \<open>Repository access and rendering (agent.py)\<close>

text \<open>\<^verbatim>\<open>list(collection.find(filter_dict))\<close>: the filter goes to the store as it is.\<close>

definition search_properties ::
  "('w, 'd) env \<Rightarrow> 'w \<Rightarrow> pyval \<Rightarrow> event list \<times> (exn + 'd doc list) \<times> 'w" where
  "search_properties E w filter_dict =
     (case coll_find E w filter_dict of (r, w') \<Rightarrow> ([DBQuery filter_dict], r, w'))"

text \<open>\<^verbatim>\<open>{prop.get(k, 'N/A')}\<close> inside an f-string.\<close>

definition field :: "('d \<Rightarrow> string) \<Rightarrow> 'd doc \<Rightarrow> string \<Rightarrow> string" where
  "field f prop k = (case prop k of None \<Rightarrow> ''N/A'' | Some v \<Rightarrow> f v)"

definition prop_str :: "('d \<Rightarrow> string) \<Rightarrow> 'd doc \<Rightarrow> string" where
  "prop_str f prop =
     ''Property Name : '' @ dq @ field f prop ''Property Name'' @ dq @ nl
     @ ''flatType : '' @ dq @ field f prop ''flatType'' @ dq @ nl
     @ ''locality : '' @ dq @ field f prop ''locality'' @ dq @ nl
     @ ''Rent/Buy : '' @ dq @ field f prop ''Rent/Buy'' @ dq @ nl
     @ ''Description : '' @ dq @ field f prop ''Description'' @ dq @ nl
     @ ''price : '' @ field f prop ''price'' @ nl"

text \<open>The \<^verbatim>\<open>for\<close> loop of \<open>format_results\<close>, appending to \<open>result\<close>.\<close>

fun format_loop :: "('d \<Rightarrow> string) \<Rightarrow> 'd doc list \<Rightarrow> string list \<Rightarrow> string list" where
  "format_loop f [] result = result"
| "format_loop f (prop # props) result = format_loop f props (result @ [prop_str f prop])"

definition format_results :: "('d \<Rightarrow> string) \<Rightarrow> 'd doc list \<Rightarrow> string" where
  "format_results f properties =
     (if properties = [] then ''No properties found matching your criteria.''
      else str_join nl (format_loop f properties []))"

section \<open>The command-line loop (agent.py)\<close>

record local_state =
  conversation_history :: "turn list"
  filters :: pyval

datatype outcome = Continue | Break | Raised exn

abbreviation query_prompt :: string where
  "query_prompt \<equiv> nl @ ''Your search query: ''"

abbreviation refine_prompt :: string where
  "refine_prompt \<equiv> nl @ ''Would you like to refine your search? (yes/no): ''"

abbreviation eof :: exn where
  "eof \<equiv> Exn EOFError ''EOF when reading a line''"

text \<open>
  The part of one iteration after \<open>analyze_query\<close> has returned and the user turn has
  been appended. \<open>rest\<close> are the lines still to be read from standard input; reading
  from an exhausted input raises EOFError.
\<close>

definition handle_analysis ::
  "('w, 'd) env \<Rightarrow> 'w \<Rightarrow> local_state \<Rightarrow> pyval \<Rightarrow> string list
     \<Rightarrow> event list \<times> outcome \<times> local_state \<times> 'w \<times> string list" where
  "handle_analysis E w st analysis rest =
     (case dict_get analysis ''status'' PNone of
        Inl e \<Rightarrow> ([], Raised e, st, w, rest)
      | Inr status \<Rightarrow>
          if status = PStr ''error'' then
            (case dict_get analysis ''raw_response'' (PStr ''No response received.'') of
               Inl e \<Rightarrow> ([], Raised e, st, w, rest)
             | Inr raw \<Rightarrow> ([Print raw], Continue, st, w, rest))
          else if status = PStr ''incomplete'' then
            (case dict_item analysis ''question'' of
               Inl e \<Rightarrow> ([], Raised e, st, w, rest)
             | Inr (PStr q) \<Rightarrow>
                 ([Print (PStr (nl @ q))], Continue,
                  st\<lparr>conversation_history :=
                       conversation_history st @ [\<lparr>role = ''assistant'', content = q\<rparr>]\<rparr>,
                  w, rest)
             | Inr v \<Rightarrow>
                 \<comment> \<open>prepending the newline to the question needs a string\<close>
                 ([], Raised (Exn TypeError ''can only concatenate str to str''), st, w, rest))
          else if status = PStr ''complete'' \<and> dict_has analysis ''filters'' then
            (case dict_item analysis ''filters'' of
               Inl e \<Rightarrow> ([], Raised e, st, w, rest)
             | Inr flt \<Rightarrow>
                 (let st2 = st\<lparr>filters := flt\<rparr>;
                      searching = Print (PStr ''Searching properties:'')
                  in case search_properties E w flt of
                       (ev, Inl e, w') \<Rightarrow> (searching # ev, Raised e, st2, w', rest)
                     | (ev, Inr results, w') \<Rightarrow>
                         (let out = searching # ev
                                @ [Print (PStr (nl @ format_results (fmt E) results)),
                                   Prompt refine_prompt]
                          in case rest of
                               [] \<Rightarrow> (out, Raised eof, st2, w', [])
                             | r # rest' \<Rightarrow>
                                 if str_lower r \<in> {''y'', ''yes''} then
                                   (out @ [Print (PStr ''Please provide additional filters or modifications'')],
                                    Continue, st2, w', rest')
                                 else
                                   (out @ [Print (PStr ''Thank you for using Property Search!'')],
                                    Break, st2, w', rest'))))
          else
            ([Print (PStr (nl @ ''Sorry, I could not process your request. Please try again.''))],
             Continue, st, w, rest))"

text \<open>One iteration of \<^verbatim>\<open>while True\<close>.\<close>

definition loop_body ::
  "('w, 'd) env \<Rightarrow> 'w \<Rightarrow> local_state \<Rightarrow> string list
     \<Rightarrow> event list \<times> outcome \<times> local_state \<times> 'w \<times> string list" where
  "loop_body E w st inputs =
     (case inputs of
        [] \<Rightarrow> ([Prompt query_prompt], Raised eof, st, w, [])
      | line # rest \<Rightarrow>
          (let user_input = str_strip line
           in if str_lower user_input \<in> {''exit'', ''quit''} then
                ([Prompt query_prompt, Print (PStr ''Goodbye!'')], Break, st, w, rest)
              else
                (case analyze_query E w user_input (conversation_history st) of
                   (ev, Inl e, w1) \<Rightarrow> (Prompt query_prompt # ev, Raised e, st, w1, rest)
                 | (ev, Inr analysis, w1) \<Rightarrow>
                     (let st1 = st\<lparr>conversation_history :=
                                     conversation_history st
                                       @ [\<lparr>role = ''user'', content = user_input\<rparr>]\<rparr>
                      in case handle_analysis E w1 st1 analysis rest of
                           (ev2, r) \<Rightarrow> (Prompt query_prompt # ev @ ev2, r)))))"

text \<open>An iteration that goes on has read at least one line.\<close>

lemma handle_analysis_rest:
  "handle_analysis E w st analysis rest = (ev, out, st', w', rest')
     \<Longrightarrow> length rest' \<le> length rest"
  by (auto simp: handle_analysis_def Let_def
           split: sum.splits if_splits pyval.splits prod.splits list.splits)

lemma loop_body_rest:
  "loop_body E w st inputs = (ev, Continue, st', w', rest')
     \<Longrightarrow> length rest' < length inputs"
  by (auto simp: loop_body_def Let_def
           split: list.splits if_splits prod.splits sum.splits
           dest!: handle_analysis_rest)

text \<open>
  The loop: it goes on while the iteration ends in \<^verbatim>\<open>continue\<close> (or falls through
  to the next round), and stops at \<^verbatim>\<open>break\<close> or at an exception nobody catches.
\<close>

function while_true ::
  "('w, 'd) env \<Rightarrow> 'w \<Rightarrow> local_state \<Rightarrow> string list
     \<Rightarrow> event list \<times> outcome \<times> local_state \<times> 'w" where
  "while_true E w st inputs =
     (let (ev, out, st', w', rest) = loop_body E w st inputs
      in if out = Continue then
           (let (ev', r) = while_true E w' st' rest in (ev @ ev', r))
         else (ev, out, st', w'))"
  by pat_completeness auto

termination
  by (relation "measure (\<lambda>(E, w, st, inputs). length inputs)")
     (auto dest: loop_body_rest [OF sym])

definition property_search_flow ::
  "('w, 'd) env \<Rightarrow> 'w \<Rightarrow> string list \<Rightarrow> event list \<times> outcome \<times> local_state \<times> 'w" where
  "property_search_flow E w inputs =
     (case while_true E w \<lparr>conversation_history = [], filters = PDict []\<rparr> inputs of
        (ev, r) \<Rightarrow> (Print (PStr ''Welcome to Property Search! How can I help you?'') # ev, r))"

section \<open>The form-based session (app.py)\<close>

text \<open>
  One run of the script is one interaction with the page. \<open>clicked\<close> is the button
  whose click caused the run: the framework reports a click to at most one button per
  run. The page configuration and the title are left out.
\<close>

datatype click = NoClick | SearchClick | ClarifyClick

record form_input =
  user_input :: string
  clarification :: string
  clicked :: click

record 'd session_state = local_state +
  results :: "'d doc list option"
  last_question :: pyval

datatype run_end = Finished | Stopped | Crashed exn

definition init_session :: "'d session_state" where
  "init_session =
     \<lparr>conversation_history = [], filters = PDict [], results = None, last_question = PNone\<rparr>"

text \<open>
  The \<^verbatim>\<open>if\<close>/\<^verbatim>\<open>elif\<close>/\<^verbatim>\<open>else\<close> on \<^verbatim>\<open>analysis.get("status")\<close>, which the
  script has twice (search and clarification) with the same text.
\<close>

definition dispatch ::
  "('w, 'd) env \<Rightarrow> 'w \<Rightarrow> 'd session_state \<Rightarrow> pyval
     \<Rightarrow> event list \<times> run_end \<times> 'd session_state \<times> 'w" where
  "dispatch E w ss analysis =
     (case dict_get analysis ''status'' PNone of
        Inl e \<Rightarrow> ([], Crashed e, ss, w)
      | Inr status \<Rightarrow>
          if status = PStr ''incomplete'' then
            (case dict_item analysis ''question'' of
               Inl e \<Rightarrow> ([], Crashed e, ss, w)
             | Inr q \<Rightarrow> ([], Finished, ss\<lparr>last_question := q, results := None\<rparr>, w))
          else if status = PStr ''complete'' \<and> dict_has analysis ''filters'' then
            (case dict_item analysis ''filters'' of
               Inl e \<Rightarrow> ([], Crashed e, ss, w)
             | Inr flt \<Rightarrow>
                 (let ss2 = ss\<lparr>filters := flt\<rparr>
                  in case search_properties E w flt of
                       (ev, Inl e, w') \<Rightarrow> (ev, Crashed e, ss2, w')
                     | (ev, Inr rs, w') \<Rightarrow>
                         (ev, Finished, ss2\<lparr>results := Some rs, last_question := PNone\<rparr>, w')))
          else
            ([StError ''Sorry, I could not process your request. Please try again.''],
             Finished, ss\<lparr>last_question := PNone, results := None\<rparr>, w))"

text \<open>Lines 19 to 38: the search button.\<close>

definition search_section ::
  "('w, 'd) env \<Rightarrow> 'w \<Rightarrow> 'd session_state \<Rightarrow> form_input
     \<Rightarrow> event list \<times> run_end \<times> 'd session_state \<times> 'w" where
  "search_section E w ss inp =
     (if clicked inp = SearchClick \<and> str_strip (user_input inp) \<noteq> [] then
        (case analyze_query E w (user_input inp) (conversation_history ss) of
           (ev, Inl e, w1) \<Rightarrow> (ev, Crashed e, ss, w1)
         | (ev, Inr analysis, w1) \<Rightarrow>
             (let ss1 = ss\<lparr>conversation_history :=
                             conversation_history ss
                               @ [\<lparr>role = ''user'', content = user_input inp\<rparr>]\<rparr>
              in case dict_get analysis ''status'' PNone of
                   Inl e \<Rightarrow> (ev, Crashed e, ss1, w1)
                 | Inr status \<Rightarrow>
                     if status = PStr ''error'' then
                       (case dict_get analysis ''raw_response'' (PStr ''No response received.'') of
                          Inl e \<Rightarrow> (ev, Crashed e, ss1, w1)
                        | Inr raw \<Rightarrow>
                            (ev @ [StError ''Sorry, there was an error understanding your request.'',
                                   StWrite raw, StStop],
                             Stopped, ss1, w1))
                     else
                       (case dispatch E w1 ss1 analysis of
                          (ev2, r) \<Rightarrow> (ev @ ev2, r))))
      else ([], Finished, ss, w))"

text \<open>Lines 40 to 56: the pending question and the clarification button.\<close>

definition clarify_section ::
  "('w, 'd) env \<Rightarrow> 'w \<Rightarrow> 'd session_state \<Rightarrow> form_input
     \<Rightarrow> event list \<times> run_end \<times> 'd session_state \<times> 'w" where
  "clarify_section E w ss inp =
     (if py_truthy (last_question ss) then
        (if clicked inp = ClarifyClick \<and> str_strip (clarification inp) \<noteq> [] then
           (case analyze_query E w (clarification inp) (conversation_history ss) of
              (ev, Inl e, w1) \<Rightarrow> (StInfo (last_question ss) # ev, Crashed e, ss, w1)
            | (ev, Inr analysis, w1) \<Rightarrow>
                (let ss1 = ss\<lparr>conversation_history :=
                                conversation_history ss
                                  @ [\<lparr>role = ''user'', content = clarification inp\<rparr>]\<rparr>
                 in case dispatch E w1 ss1 analysis of
                      (ev2, r) \<Rightarrow> (StInfo (last_question ss) # ev @ ev2, r)))
         else ([StInfo (last_question ss)], Finished, ss, w))
      else ([], Finished, ss, w))"

text \<open>Lines 58 to 70: the results panel.\<close>

definition prop_events :: "('d \<Rightarrow> string) \<Rightarrow> 'd doc \<Rightarrow> event list" where
  "prop_events f prop =
     [StMarkdown (''**Property Name:** '' @ field f prop ''Property Name''),
      StWrite (PStr (''flatType: '' @ field f prop ''flatType'')),
      StWrite (PStr (''locality: '' @ field f prop ''locality'')),
      StWrite (PStr (''Rent/Buy: '' @ field f prop ''Rent/Buy'')),
      StWrite (PStr (''Description: '' @ field f prop ''Description'')),
      StWrite (PStr (''price: '' @ field f prop ''price'')),
      StMarkdown ''---'']"

fun panel_loop :: "('d \<Rightarrow> string) \<Rightarrow> 'd doc list \<Rightarrow> event list" where
  "panel_loop f [] = []"
| "panel_loop f (prop # props) = prop_events f prop @ panel_loop f props"

definition results_panel :: "('d \<Rightarrow> string) \<Rightarrow> 'd doc list option \<Rightarrow> event list" where
  "results_panel f res =
     (case res of
        None \<Rightarrow> []
      | Some rs \<Rightarrow>
          StSubheader ''Search Results''
            # (if rs \<noteq> [] then panel_loop f rs
               else [StWarning ''No properties found matching your criteria.'']))"

text \<open>The whole script, top to bottom.\<close>

definition app_run ::
  "('w, 'd) env \<Rightarrow> 'w \<Rightarrow> 'd session_state \<Rightarrow> form_input
     \<Rightarrow> event list \<times> run_end \<times> 'd session_state \<times> 'w" where
  "app_run E w ss inp =
     (let top = StWrite (PStr ''Enter your property search query below:'')
      in case search_section E w ss inp of
           (ev1, Finished, ss1, w1) \<Rightarrow>
             (case clarify_section E w1 ss1 inp of
                (ev2, Finished, ss2, w2) \<Rightarrow>
                  (top # ev1 @ ev2 @ results_panel (fmt E) (results ss2), Finished, ss2, w2)
              | (ev2, r, ss2, w2) \<Rightarrow> (top # ev1 @ ev2, r, ss2, w2))
         | (ev1, r, ss1, w1) \<Rightarrow> (top # ev1, r, ss1, w1))"

section \<open>Observations on a trace\<close>

text \<open>The calls to the outside among the events: the model call and the store query.\<close>

definition is_effect :: "event \<Rightarrow> bool" where
  "is_effect e = (case e of LLMCall r \<Rightarrow> True | DBQuery flt \<Rightarrow> True | _ \<Rightarrow> False)"

definition effects :: "event list \<Rightarrow> event list" where
  "effects ev = filter is_effect ev"


text \<open>The interpretation is complete and holds the filter \<open>flt\<close>.\<close>

definition complete_with :: "pyval \<Rightarrow> pyval \<Rightarrow> bool" where
  "complete_with analysis flt =
     (dict_get analysis ''status'' PNone = Inr (PStr ''complete'')
      \<and> dict_item analysis ''filters'' = Inr flt)"

section \<open>Stand-ins for the collaborators\<close>

text \<open>
  Concrete collaborators on which the model is run. The world is a pair: the number of
  calls made so far (to the provider and to the store) and the collection. The provider
  answers every request with the same choices; the decoder knows the texts of a table
  and rejects every other text; the store returns the whole collection (every listing
  matches).
\<close>

definition table_loads :: "(string \<times> pyval) list \<Rightarrow> string \<Rightarrow> exn + pyval" where
  "table_loads tbl s =
     (case map_of tbl s of
        Some v \<Rightarrow> Inr v
      | None \<Rightarrow> Inl (Exn JSONDecodeError ''Expecting value: line 1 column 1 (char 0)''))"

definition stub_env ::
  "string option list \<Rightarrow> (string \<times> pyval) list \<Rightarrow> (nat \<times> string doc list, string) env" where
  "stub_env cs tbl =
     \<lparr>completion = (\<lambda>w req. (Inr \<lparr>choices = cs\<rparr>, (Suc (fst w), snd w))),
      json_loads = table_loads tbl,
      coll_find = (\<lambda>w flt. (Inr (snd w), (Suc (fst w), snd w))),
      fmt = (\<lambda>v. v),
      litellm_api_key = Some ''key'',
      litellm_base_url = Some ''http://localhost'',
      azure_deployment_id = Some ''gpt''\<rparr>"

definition start :: local_state where
  "start = \<lparr>conversation_history = [], filters = PDict []\<rparr>"

text \<open>Replies of the model, as text and as \<^verbatim>\<open>json.loads\<close> decodes them, and a listing.\<close>

abbreviation quoted :: "string \<Rightarrow> string" where
  "quoted s \<equiv> dq @ s @ dq"

definition filter_3bhk :: pyval where
  "filter_3bhk = PDict [(''flatType'', PStr ''3BHK''), (''price'', PDict [(''$lte'', PInt 20000)])]"

definition complete_reply :: pyval where
  "complete_reply = PDict [(''status'', PStr ''complete''), (''filters'', filter_3bhk)]"

definition complete_text :: string where
  "complete_text =
     ''{'' @ quoted ''status'' @ '': '' @ quoted ''complete'' @ '', '' @ quoted ''filters''
       @ '': {'' @ quoted ''flatType'' @ '': '' @ quoted ''3BHK'' @ '', '' @ quoted ''price''
       @ '': {'' @ quoted ''$lte'' @ '': 20000}}}''"

definition incomplete_reply :: pyval where
  "incomplete_reply =
     PDict [(''status'', PStr ''incomplete''), (''question'', PStr ''Which area?'')]"

definition incomplete_text :: string where
  "incomplete_text =
     ''{'' @ quoted ''status'' @ '': '' @ quoted ''incomplete'' @ '', '' @ quoted ''question''
       @ '': '' @ quoted ''Which area?'' @ ''}''"

definition unchecked_filter :: pyval where
  "unchecked_filter = PDict [(''bedrooms'', PInt 3), (''price'', PStr ''20k'')]"

definition unchecked_reply :: pyval where
  "unchecked_reply = PDict [(''status'', PStr ''complete''), (''filters'', unchecked_filter)]"

definition unchecked_text :: string where
  "unchecked_text =
     ''{'' @ quoted ''status'' @ '': '' @ quoted ''complete'' @ '', '' @ quoted ''filters''
       @ '': {'' @ quoted ''bedrooms'' @ '': 3, '' @ quoted ''price'' @ '': ''
       @ quoted ''20k'' @ ''}}''"

definition both_reply :: pyval where
  "both_reply =
     PDict [(''status'', PStr ''complete''), (''question'', PStr ''Which area?''),
            (''filters'', PDict [])]"

definition both_text :: string where
  "both_text =
     ''{'' @ quoted ''status'' @ '': '' @ quoted ''complete'' @ '', '' @ quoted ''question''
       @ '': '' @ quoted ''Which area?'' @ '', '' @ quoted ''filters'' @ '': {}}''"

definition sky_villa :: "string doc" where
  "sky_villa =
     [''Property Name'' \<mapsto> ''Sky Villa'', ''flatType'' \<mapsto> ''3BHK'', ''price'' \<mapsto> ''18000'']"

definition lake_view :: "string doc" where
  "lake_view = [''Property Name'' \<mapsto> ''Lake View'', ''locality'' \<mapsto> ''Gachibowli'']"

text \<open>
  A store that tells filters apart: it returns the collection for the one filter
  \<open>wanted\<close> and nothing for any other.
\<close>

definition matching_find ::
  "pyval \<Rightarrow> nat \<times> string doc list \<Rightarrow> pyval
     \<Rightarrow> (exn + string doc list) \<times> (nat \<times> string doc list)" where
  "matching_find wanted w flt =
     (if flt = wanted then Inr (snd w) else Inr [], (Suc (fst w), snd w))"

text \<open>The record that the \<^verbatim>\<open>except\<close> handler builds.\<close>

abbreviation error_record :: "string \<Rightarrow> pyval \<Rightarrow> pyval" where
  "error_record msg raw \<equiv>
     PDict [(''status'', PStr ''error''), (''error'', PStr msg), (''raw_response'', raw)]"

section \<open>The specification's vocabulary\<close>

text \<open>
  The structure the specification expects of a decoded reply: a record whose status is
  \<^verbatim>\<open>complete\<close> with a filter, or \<^verbatim>\<open>incomplete\<close> with a question.
\<close>

definition expected_structure :: "pyval \<Rightarrow> bool" where
  "expected_structure v =
     ((dict_get v ''status'' PNone = Inr (PStr ''complete'') \<and> dict_has v ''filters'')
      \<or> (dict_get v ''status'' PNone = Inr (PStr ''incomplete'') \<and> dict_has v ''question''))"

text \<open>The Failed variant: a record with status \<^verbatim>\<open>error\<close>.\<close>

definition is_failed :: "pyval \<Rightarrow> bool" where
  "is_failed v = (dict_get v ''status'' PNone = Inr (PStr ''error''))"

text \<open>
  A filter expression as the specification wants it: only the fields \<^verbatim>\<open>flatType\<close>,
  \<^verbatim>\<open>locality\<close> and \<^verbatim>\<open>price\<close>, and the price a number or a comparison with numbers.
\<close>

fun numeric :: "pyval \<Rightarrow> bool" where
  "numeric (PInt i) = True"
| "numeric (PFloat x) = True"
| "numeric v = False"

fun price_ok :: "pyval \<Rightarrow> bool" where
  "price_ok (PDict ops) = list_all (\<lambda>(k, v). numeric v) ops"
| "price_ok v = numeric v"

fun filter_ok :: "pyval \<Rightarrow> bool" where
  "filter_ok (PDict kvs) =
     list_all (\<lambda>(k, v). k \<in> {''flatType'', ''locality'', ''price''}
                          \<and> (k = ''price'' \<longrightarrow> price_ok v)) kvs"
| "filter_ok v = False"

text \<open>
  The rendering of a listing in the specification's words: a fixed list of labelled
  fields, each with the placeholder when the listing lacks it. The label is the
  attribute's name; the flag says whether the value stands in quotation marks.
\<close>

definition labelled_fields :: "(string \<times> bool) list" where
  "labelled_fields =
     [(''Property Name'', True), (''flatType'', True), (''locality'', True),
      (''Rent/Buy'', True), (''Description'', True), (''price'', False)]"

definition labelled_line :: "('d \<Rightarrow> string) \<Rightarrow> 'd doc \<Rightarrow> string \<times> bool \<Rightarrow> string" where
  "labelled_line f prop lab =
     fst lab @ '' : ''
       @ (if snd lab then quoted (case prop (fst lab) of None \<Rightarrow> ''N/A'' | Some v \<Rightarrow> f v)
          else (case prop (fst lab) of None \<Rightarrow> ''N/A'' | Some v \<Rightarrow> f v))
       @ nl"

definition labelled_block :: "('d \<Rightarrow> string) \<Rightarrow> 'd doc \<Rightarrow> string" where
  "labelled_block f prop = concat (map (labelled_line f prop) labelled_fields)"

section \<open>Properties\<close>

subsection \<open>The exit sentinel\<close>

lemma loop_body_exit:
  assumes "str_lower (str_strip line) \<in> {''exit'', ''quit''}"
  shows "loop_body E w st (line # rest) =
           ([Prompt query_prompt, Print (PStr ''Goodbye!'')], Break, st, w, rest)"
  using assms by (simp add: loop_body_def Let_def)

text \<open>
  C9. When the line read, stripped and lowered, is \<^verbatim>\<open>exit\<close> or \<^verbatim>\<open>quit\<close>, the loop
  ends at once: the only events are the prompt and the farewell (no model call, no store
  query), the conversation history and the filters are the ones before, and so is the
  world.
\<close>

theorem exit_terminates:
  assumes "str_lower (str_strip line) \<in> {''exit'', ''quit''}"
  shows "while_true E w st (line # rest) =
           ([Prompt query_prompt, Print (PStr ''Goodbye!'')], Break, st, w)"
  by (subst while_true.simps) (simp add: loop_body_exit [OF assms])

theorem exit_terminates_witness:
  "str_lower (str_strip ''  EXIT  '') \<in> {''exit'', ''quit''} \<and>
   while_true (stub_env [] []) (0, [])
       \<lparr>conversation_history = [\<lparr>role = ''user'', content = ''hi''\<rparr>], filters = PDict []\<rparr>
       [''  EXIT  '', ''more'']
     = ([Prompt query_prompt, Print (PStr ''Goodbye!'')], Break,
        \<lparr>conversation_history = [\<lparr>role = ''user'', content = ''hi''\<rparr>], filters = PDict []\<rparr>,
        (0, []))"
proof -
  have h: "str_lower (str_strip ''  EXIT  '') \<in> {''exit'', ''quit''}"
    by code_simp
  show ?thesis
    using h exit_terminates [OF h] by simp
qed

subsection \<open>Failures of the model call\<close>

text \<open>
  C10. The call of the provider is outside the \<^verbatim>\<open>try\<close> block: when it raises,
  \<open>analyze_query\<close> raises the same exception to its caller, after the one call, and
  builds no error record.
\<close>

theorem completion_error_propagates:
  assumes "azure_deployment_id E = Some d"
    and "completion E w
           \<lparr>model = ''azure/'' @ d, messages = build_messages query hist,
            temperature = 0, api_key = litellm_api_key E, base_url = litellm_base_url E\<rparr>
         = (Inl e, w')"
  shows "analyze_query E w query hist =
           ([LLMCall \<lparr>model = ''azure/'' @ d, messages = build_messages query hist,
                      temperature = 0, api_key = litellm_api_key E,
                      base_url = litellm_base_url E\<rparr>],
            Inl e, w')"
  using assms by (simp add: analyze_query_def model_name_def Let_def)

theorem completion_error_propagates_witness:
  "analyze_query
     ((stub_env [] [])\<lparr>completion := (\<lambda>w req. (Inl (Exn ProviderError ''timeout''), w))\<rparr>)
     (0, []) ''3BHK'' []
   = ([LLMCall \<lparr>model = ''azure/gpt'', messages = build_messages ''3BHK'' [],
                temperature = 0, api_key = Some ''key'',
                base_url = Some ''http://localhost''\<rparr>],
      Inl (Exn ProviderError ''timeout''), (0, []))"
  using completion_error_propagates
          [of "(stub_env [] [])\<lparr>completion := (\<lambda>w req. (Inl (Exn ProviderError ''timeout''), w))\<rparr>"
              "''gpt''" "(0, [])" "''3BHK''" "[]" "Exn ProviderError ''timeout''" "(0, [])"]
  by (simp add: stub_env_def)

subsection \<open>Rendering\<close>

text \<open>
  C5. For no listing at all the text is the fixed sentence: \<open>format_results\<close> returns
  exactly it (the command-line loop prints it after a newline), and the results panel of
  the form shows it as a warning under the panel's heading.
\<close>

theorem empty_result_message:
  "format_results f [] = ''No properties found matching your criteria.''
   \<and> results_panel f (Some []) =
       [StSubheader ''Search Results'',
        StWarning ''No properties found matching your criteria.'']"
  by (simp add: format_results_def results_panel_def)

subsection \<open>Outside calls of the parts\<close>

lemma effects_simps:
  "effects [] = []"
  "effects (LLMCall r # ev) = LLMCall r # effects ev"
  "effects (DBQuery flt # ev) = DBQuery flt # effects ev"
  "effects (Print v # ev) = effects ev"
  "effects (Prompt s # ev) = effects ev"
  "effects (StWrite v # ev) = effects ev"
  "effects (StError s # ev) = effects ev"
  "effects (StInfo v # ev) = effects ev"
  "effects (StWarning s # ev) = effects ev"
  "effects (StSubheader s # ev) = effects ev"
  "effects (StMarkdown s # ev) = effects ev"
  "effects (StStop # ev) = effects ev"
  "effects (xs @ ys) = effects xs @ effects ys"
  by (simp_all add: effects_def is_effect_def)
















subsection \<open>Calls per turn\<close>



subsection \<open>Rendering of listings\<close>

lemma format_loop_map: "format_loop f props result = result @ map (prop_str f) props"
  by (induction props arbitrary: result) auto

lemma panel_loop_concat: "panel_loop f props = concat (map (prop_events f) props)"
  by (induction props) auto

lemma prop_str_labelled: "prop_str f prop = labelled_block f prop"
  by (simp add: prop_str_def labelled_block_def labelled_line_def labelled_fields_def field_def)

text \<open>
  C6. For a list of listings that is not empty, \<open>format_results\<close> is the blocks of the
  listings, one block for each listing of the input and in the input's order, joined by
  newlines; nothing is sorted, cut or paged. The block of a listing is the fixed list of
  six labelled fields (\<open>labelled_block\<close>), and a field reads \<^verbatim>\<open>N/A\<close> when the
  listing has no such key and the stored value's text otherwise. The results panel of
  the form does the same with its own labels.
\<close>

theorem format_results_in_order:
  assumes "properties \<noteq> []"
  shows "format_results f properties = str_join nl (map (labelled_block f) properties)
         \<and> results_panel f (Some properties) =
             StSubheader ''Search Results'' # concat (map (prop_events f) properties)
         \<and> field f prop k = (case prop k of None \<Rightarrow> ''N/A'' | Some v \<Rightarrow> f v)"
proof -
  have "prop_str f = labelled_block f"
    by (rule ext) (rule prop_str_labelled)
  with assms show ?thesis
    by (simp add: format_results_def results_panel_def format_loop_map panel_loop_concat
                  field_def)
qed

theorem format_results_in_order_witness:
  "format_results (\<lambda>v. v) [sky_villa, lake_view] =
     ''Property Name : '' @ quoted ''Sky Villa'' @ nl @ ''flatType : '' @ quoted ''3BHK'' @ nl
     @ ''locality : '' @ quoted ''N/A'' @ nl @ ''Rent/Buy : '' @ quoted ''N/A'' @ nl
     @ ''Description : '' @ quoted ''N/A'' @ nl @ ''price : 18000'' @ nl
     @ nl
     @ ''Property Name : '' @ quoted ''Lake View'' @ nl @ ''flatType : '' @ quoted ''N/A'' @ nl
     @ ''locality : '' @ quoted ''Gachibowli'' @ nl @ ''Rent/Buy : '' @ quoted ''N/A'' @ nl
     @ ''Description : '' @ quoted ''N/A'' @ nl @ ''price : N/A'' @ nl
   \<and> results_panel (\<lambda>v. v) (Some [sky_villa, lake_view]) =
       [StSubheader ''Search Results'',
        StMarkdown ''**Property Name:** Sky Villa'', StWrite (PStr ''flatType: 3BHK''),
        StWrite (PStr ''locality: N/A''), StWrite (PStr ''Rent/Buy: N/A''),
        StWrite (PStr ''Description: N/A''), StWrite (PStr ''price: 18000''),
        StMarkdown ''---'',
        StMarkdown ''**Property Name:** Lake View'', StWrite (PStr ''flatType: N/A''),
        StWrite (PStr ''locality: Gachibowli''), StWrite (PStr ''Rent/Buy: N/A''),
        StWrite (PStr ''Description: N/A''), StWrite (PStr ''price: N/A''),
        StMarkdown ''---'']"
proof -
  have ne: "[sky_villa, lake_view] \<noteq> []"
    by simp
  from format_results_in_order [OF ne, of "\<lambda>v. v" sky_villa "''price''"]
  show ?thesis
    by (simp add: labelled_block_def labelled_line_def labelled_fields_def prop_events_def
                  field_def sky_villa_def lake_view_def)
qed

subsection \<open>Replies that do not decode\<close>

text \<open>
  C2, as the program has it. When the response holds at least one choice and
  \<^verbatim>\<open>json.loads\<close> rejects the text of the first one with the exception \<open>e\<close>,
  \<open>analyze_query\<close> raises nothing: it returns the record with status \<^verbatim>\<open>error\<close>, the
  text of \<open>e\<close> and the reply's text as it came.
\<close>

theorem rejected_reply_gives_failed:
  assumes "azure_deployment_id E = Some d"
    and "completion E w
           \<lparr>model = ''azure/'' @ d, messages = build_messages query hist,
            temperature = 0, api_key = litellm_api_key E, base_url = litellm_base_url E\<rparr>
         = (Inr r, w')"
    and "choices r = Some s # cs"
    and "json_loads E s = Inl e"
  shows "fst (snd (analyze_query E w query hist)) =
           Inr (PDict [(''status'', PStr ''error''), (''error'', PStr (exn_str e)),
                       (''raw_response'', PStr s)])
         \<and> is_failed (PDict [(''status'', PStr ''error''), (''error'', PStr (exn_str e)),
                              (''raw_response'', PStr s)])"
  using assms
  by (simp add: analyze_query_def model_name_def Let_def try_parse_def first_content_def
                failed_def is_failed_def)

theorem rejected_reply_gives_failed_witness:
  "fst (snd (analyze_query (stub_env [Some ''Sure, here are some flats!''] []) (0, [])
               ''3BHK'' [])) =
     Inr (PDict [(''status'', PStr ''error''),
                 (''error'', PStr ''Expecting value: line 1 column 1 (char 0)''),
                 (''raw_response'', PStr ''Sure, here are some flats!'')])"
  using rejected_reply_gives_failed
          [of "stub_env [Some ''Sure, here are some flats!''] []" "''gpt''" "(0, [])" "''3BHK''"
              "[]" "\<lparr>choices = [Some ''Sure, here are some flats!'']\<rparr>" "(1, [])"
              "''Sure, here are some flats!''" "[]"
              "Exn JSONDecodeError ''Expecting value: line 1 column 1 (char 0)''"]
  by (simp add: stub_env_def table_loads_def)

text \<open>
  A response without any choice is outside that statement: the handler reads the first
  choice again and the IndexError leaves \<open>analyze_query\<close>.
\<close>

lemma empty_choices_raise:
  assumes "azure_deployment_id E = Some d"
    and "completion E w
           \<lparr>model = ''azure/'' @ d, messages = build_messages query hist,
            temperature = 0, api_key = litellm_api_key E, base_url = litellm_base_url E\<rparr>
         = (Inr r, w')"
    and "choices r = []"
  shows "fst (snd (analyze_query E w query hist)) =
           Inl (Exn IndexError ''list index out of range'')"
  using assms
  by (simp add: analyze_query_def model_name_def Let_def try_parse_def first_content_def
                failed_def)

text \<open>
  C2 as written fails on a reply that is valid JSON of another structure: the
  reply \<^verbatim>\<open>42\<close> decodes to a number, which is not the expected structure, and
  \<open>analyze_query\<close> returns the number, not an error record.
\<close>

theorem unexpected_structure_is_returned:
  "json_loads (stub_env [Some ''42''] [(''42'', PInt 42)]) ''42'' = Inr (PInt 42)
   \<and> \<not> expected_structure (PInt 42)
   \<and> fst (snd (analyze_query (stub_env [Some ''42''] [(''42'', PInt 42)]) (0, []) ''3BHK'' []))
       = Inr (PInt 42)
   \<and> \<not> is_failed (PInt 42)"
  by (simp add: stub_env_def table_loads_def expected_structure_def is_failed_def
                analyze_query_def model_name_def Let_def try_parse_def first_content_def)

subsection \<open>The filter of a complete interpretation\<close>

lemma complete_with_dict:
  "complete_with a flt \<Longrightarrow> \<exists>kvs. a = PDict kvs \<and> map_of kvs ''status'' = Some (PStr ''complete'')
                                   \<and> map_of kvs ''filters'' = Some flt"
  by (cases a) (auto simp: complete_with_def split: option.splits)

text \<open>
  C3, as the program has it. When the interpretation is complete and holds \<open>flt\<close> under
  \<^verbatim>\<open>filters\<close>, the filter that is stored and sent to the store is \<open>flt\<close> itself,
  in the command-line loop and in the form. \<open>search_properties\<close> asks the store with
  the filter it was given; the turn makes this one query, keeps \<open>flt\<close> as its filter,
  goes on in the world the store left after answering \<open>flt\<close>, and shows what the store
  answered to \<open>flt\<close> (or ends with the store's fault). The fields of the filter and the
  types of its values are therefore those of the model's reply; the program checks
  neither.
\<close>

theorem complete_filter_is_passed_unchanged:
  assumes "complete_with a flt"
  shows "snd (search_properties E w flt) = coll_find E w flt
         \<and> effects (fst (handle_analysis E w st a rest)) = [DBQuery flt]
         \<and> filters (fst (snd (snd (handle_analysis E w st a rest)))) = flt
         \<and> fst (snd (snd (snd (handle_analysis E w st a rest)))) = snd (coll_find E w flt)
         \<and> (case fst (coll_find E w flt) of
               Inl e \<Rightarrow> fst (snd (handle_analysis E w st a rest)) = Raised e
             | Inr rs \<Rightarrow>
                 Print (PStr (nl @ format_results (fmt E) rs))
                   \<in> set (fst (handle_analysis E w st a rest)))
         \<and> effects (fst (dispatch E w ss a)) = [DBQuery flt]
         \<and> filters (fst (snd (snd (dispatch E w ss a)))) = flt
         \<and> dispatch E w ss a =
             (case coll_find E w flt of
                (Inl e, w') \<Rightarrow> ([DBQuery flt], Crashed e, ss\<lparr>filters := flt\<rparr>, w')
              | (Inr rs, w') \<Rightarrow>
                  ([DBQuery flt], Finished,
                   ss\<lparr>filters := flt, results := Some rs, last_question := PNone\<rparr>, w'))"
proof -
  from complete_with_dict [OF assms] obtain kvs
    where a: "a = PDict kvs" "map_of kvs ''status'' = Some (PStr ''complete'')"
             "map_of kvs ''filters'' = Some flt"
    by blast
  obtain r w' where find: "coll_find E w flt = (r, w')"
    by (cases "coll_find E w flt") auto
  have store: "snd (search_properties E w flt) = coll_find E w flt"
    by (simp add: search_properties_def find)
  have cli: "effects (fst (handle_analysis E w st a rest)) = [DBQuery flt]
             \<and> filters (fst (snd (snd (handle_analysis E w st a rest)))) = flt
             \<and> fst (snd (snd (snd (handle_analysis E w st a rest)))) = w'
             \<and> (case r of
                   Inl e \<Rightarrow> fst (snd (handle_analysis E w st a rest)) = Raised e
                 | Inr rs \<Rightarrow>
                     Print (PStr (nl @ format_results (fmt E) rs))
                       \<in> set (fst (handle_analysis E w st a rest)))"
    using a find
    by (cases r; cases rest)
       (simp_all add: handle_analysis_def search_properties_def Let_def effects_simps)
  have form: "dispatch E w ss a =
             (case coll_find E w flt of
                (Inl e, w') \<Rightarrow> ([DBQuery flt], Crashed e, ss\<lparr>filters := flt\<rparr>, w')
              | (Inr rs, w') \<Rightarrow>
                  ([DBQuery flt], Finished,
                   ss\<lparr>filters := flt, results := Some rs, last_question := PNone\<rparr>, w'))"
    using a find
    by (cases r) (simp_all add: dispatch_def search_properties_def Let_def)
  have form': "effects (fst (dispatch E w ss a)) = [DBQuery flt]
              \<and> filters (fst (snd (snd (dispatch E w ss a)))) = flt"
    using a find
    by (cases r) (simp_all add: dispatch_def search_properties_def Let_def effects_simps)
  from store cli form form' find show ?thesis
    by simp
qed

theorem complete_filter_is_passed_unchanged_witness:
  "complete_with complete_reply filter_3bhk
   \<and> filter_ok filter_3bhk
   \<and> effects (fst (handle_analysis
                    ((stub_env [] [])\<lparr>coll_find := matching_find filter_3bhk\<rparr>)
                    (0, [sky_villa]) start complete_reply [''no'']))
       = [DBQuery filter_3bhk]
   \<and> Print (PStr (nl @ format_results (\<lambda>v. v) [sky_villa]))
       \<in> set (fst (handle_analysis
                    ((stub_env [] [])\<lparr>coll_find := matching_find filter_3bhk\<rparr>)
                    (0, [sky_villa]) start complete_reply [''no'']))
   \<and> dispatch ((stub_env [] [])\<lparr>coll_find := matching_find filter_3bhk\<rparr>)
        (0, [sky_villa]) init_session complete_reply
       = ([DBQuery filter_3bhk], Finished,
          init_session\<lparr>filters := filter_3bhk, results := Some [sky_villa],
                        last_question := PNone\<rparr>,
          (1, [sky_villa]))"
proof -
  let ?E = "(stub_env [] [])\<lparr>coll_find := matching_find filter_3bhk\<rparr>"
  have h: "complete_with complete_reply filter_3bhk"
    by (simp add: complete_with_def complete_reply_def)
  have ok: "filter_ok filter_3bhk"
    by (simp add: filter_3bhk_def)
  have find: "coll_find ?E (0, [sky_villa]) filter_3bhk = (Inr [sky_villa], (1, [sky_villa]))"
    by (simp add: matching_find_def)
  have f: "fmt ?E = (\<lambda>v. v)"
    by (simp add: stub_env_def)
  from complete_filter_is_passed_unchanged
         [OF h, of ?E "(0, [sky_villa])" start "[''no'']" init_session] h ok find f
  show ?thesis
    by simp
qed

text \<open>
  C3 as written fails: a reply with status \<^verbatim>\<open>complete\<close> whose filter has the
  field \<^verbatim>\<open>bedrooms\<close> and a price given as text is a complete interpretation, and the
  loop sends that very filter to the store.
\<close>

theorem unchecked_filter_reaches_store:
  "fst (snd (analyze_query (stub_env [Some unchecked_text] [(unchecked_text, unchecked_reply)])
               (0, []) ''2 bedrooms around 20k'' [])) = Inr unchecked_reply
   \<and> complete_with unchecked_reply unchecked_filter
   \<and> \<not> filter_ok unchecked_filter
   \<and> DBQuery unchecked_filter
       \<in> set (fst (loop_body (stub_env [Some unchecked_text] [(unchecked_text, unchecked_reply)])
                     (0, []) start [''2 bedrooms around 20k'', ''no'']))"
proof -
  let ?E = "stub_env [Some unchecked_text] [(unchecked_text, unchecked_reply)]"
  have "fst (snd (analyze_query ?E (0, []) ''2 bedrooms around 20k'' [])) = Inr unchecked_reply"
    by (simp add: stub_env_def table_loads_def analyze_query_def model_name_def Let_def
                  try_parse_def first_content_def)
  moreover have "complete_with unchecked_reply unchecked_filter"
    by (simp add: complete_with_def unchecked_reply_def)
  moreover have "\<not> filter_ok unchecked_filter"
    by (simp add: unchecked_filter_def)
  moreover have "DBQuery unchecked_filter
       \<in> set (fst (loop_body ?E (0, []) start [''2 bedrooms around 20k'', ''no'']))"
    by code_simp
  ultimately show ?thesis
    by simp
qed

subsection \<open>What an interpretation result carries\<close>

text \<open>
  C4, as the program has it. When the provider answers the request with at least one
  choice, the result of \<open>analyze_query\<close> is the value \<^verbatim>\<open>json.loads\<close> gives for the
  first choice's text, returned as it is, or, when the text is rejected or absent, the
  error record. The error record has status \<^verbatim>\<open>error\<close> and carries neither a
  question nor a filter. Whether a decoded reply carries a question, a filter, both or
  neither is up to the model.
\<close>

theorem result_is_reply_or_failed:
  assumes "azure_deployment_id E = Some d"
    and "completion E w
           \<lparr>model = ''azure/'' @ d, messages = build_messages query hist,
            temperature = 0, api_key = litellm_api_key E, base_url = litellm_base_url E\<rparr>
         = (Inr r, w')"
    and "choices r = c # cs"
  shows "fst (snd (analyze_query E w query hist)) =
           (case c of
              None \<Rightarrow>
                Inr (error_record
                       ''the JSON object must be str, bytes or bytearray, not NoneType'' PNone)
            | Some s \<Rightarrow>
                (case json_loads E s of
                   Inr v \<Rightarrow> Inr v
                 | Inl e \<Rightarrow> Inr (error_record (exn_str e) (PStr s))))
         \<and> is_failed (error_record msg raw)
         \<and> \<not> dict_has (error_record msg raw) ''question''
         \<and> \<not> dict_has (error_record msg raw) ''filters''"
  using assms
  by (simp add: analyze_query_def model_name_def Let_def try_parse_def first_content_def
                failed_def is_failed_def split: option.splits sum.splits)

theorem result_is_reply_or_failed_witness:
  "fst (snd (analyze_query (stub_env [Some complete_text] [(complete_text, complete_reply)])
               (0, []) ''3BHK under 20k'' [])) = Inr complete_reply
   \<and> fst (snd (analyze_query (stub_env [Some ''Sure!''] []) (0, []) ''3BHK'' []))
       = Inr (error_record ''Expecting value: line 1 column 1 (char 0)'' (PStr ''Sure!''))
   \<and> fst (snd (analyze_query (stub_env [None] []) (0, []) ''3BHK'' []))
       = Inr (error_record ''the JSON object must be str, bytes or bytearray, not NoneType''
                PNone)
   \<and> is_failed (error_record ''Expecting value: line 1 column 1 (char 0)'' (PStr ''Sure!''))
   \<and> \<not> dict_has (error_record ''Expecting value: line 1 column 1 (char 0)'' (PStr ''Sure!''))
          ''question''
   \<and> \<not> dict_has (error_record ''Expecting value: line 1 column 1 (char 0)'' (PStr ''Sure!''))
          ''filters''"
proof -
  let ?E1 = "stub_env [Some complete_text] [(complete_text, complete_reply)]"
  let ?E2 = "stub_env [Some ''Sure!''] [] :: (nat \<times> string doc list, string) env"
  let ?E3 = "stub_env [None] [] :: (nat \<times> string doc list, string) env"
  note decoded = result_is_reply_or_failed
      [of ?E1 "''gpt''" "(0, [])" "''3BHK under 20k''" "[]" "\<lparr>choices = [Some complete_text]\<rparr>"
          "(1, [])" "Some complete_text" "[]"]
  note rejected = result_is_reply_or_failed
      [of ?E2 "''gpt''" "(0, [])" "''3BHK''" "[]" "\<lparr>choices = [Some ''Sure!'']\<rparr>"
          "(1, [])" "Some ''Sure!''" "[]"
          "''Expecting value: line 1 column 1 (char 0)''" "PStr ''Sure!''"]
  note absent = result_is_reply_or_failed
      [of ?E3 "''gpt''" "(0, [])" "''3BHK''" "[]" "\<lparr>choices = [None]\<rparr>"
          "(1, [])" None "[]"]
  from decoded rejected absent show ?thesis
    by (simp add: stub_env_def table_loads_def)
qed

text \<open>
  C4 as written fails: a reply that holds a question and a filter at once is
  returned as it is, so the result carries both.
\<close>

theorem result_can_carry_both:
  "fst (snd (analyze_query (stub_env [Some both_text] [(both_text, both_reply)])
               (0, []) ''3BHK'' [])) = Inr both_reply
   \<and> dict_has both_reply ''question'' \<and> dict_has both_reply ''filters''"
  by (simp add: stub_env_def table_loads_def analyze_query_def model_name_def Let_def
                try_parse_def first_content_def both_reply_def)

subsection \<open>Repeating a store query\<close>

text \<open>
  C8. \<open>search_properties\<close> hands the filter to the store and returns what the store
  returns, and keeps nothing between calls. So when the store answers a query from its
  data alone, and the first call has left the data as they were, a second call with the
  same filter, made in the world the first call left, returns what the first returned:
  the same records, as many of them, in the same order (or the same fault).
\<close>

theorem search_properties_repeatable:
  assumes "\<forall>u v g. data u = data v \<longrightarrow> fst (coll_find E u g) = fst (coll_find E v g)"
    and "data (snd (snd (search_properties E w flt))) = data w"
  shows "fst (snd (search_properties E (snd (snd (search_properties E w flt))) flt))
           = fst (snd (search_properties E w flt))
         \<and> fst (search_properties E (snd (snd (search_properties E w flt))) flt)
           = fst (search_properties E w flt)"
proof -
  obtain r w1 where first: "coll_find E w flt = (r, w1)"
    by (cases "coll_find E w flt") auto
  obtain r' w2 where second: "coll_find E w1 flt = (r', w2)"
    by (cases "coll_find E w1 flt") auto
  from first assms(2) have "data w1 = data w"
    by (simp add: search_properties_def)
  with assms(1) have "fst (coll_find E w1 flt) = fst (coll_find E w flt)"
    by blast
  with first second have "r' = r"
    by simp
  with first second show ?thesis
    by (simp add: search_properties_def)
qed

theorem search_properties_repeatable_witness:
  "snd (snd (search_properties (stub_env [] []) (0, [sky_villa, lake_view]) filter_3bhk))
     = (1, [sky_villa, lake_view])
   \<and> fst (snd (search_properties (stub_env [] []) (1, [sky_villa, lake_view]) filter_3bhk))
     = Inr [sky_villa, lake_view]
   \<and> fst (snd (search_properties (stub_env [] []) (0, [sky_villa, lake_view]) filter_3bhk))
     = Inr [sky_villa, lake_view]"
proof -
  let ?E = "stub_env [] [] :: (nat \<times> string doc list, string) env"
  let ?w = "(0, [sky_villa, lake_view]) :: nat \<times> string doc list"
  have store: "\<forall>u v g. snd u = snd v \<longrightarrow> fst (coll_find ?E u g) = fst (coll_find ?E v g)"
    by (simp add: stub_env_def)
  have after: "snd (snd (search_properties ?E ?w filter_3bhk)) = (1, [sky_villa, lake_view])"
    by (simp add: search_properties_def stub_env_def)
  then have same: "snd (snd (snd (search_properties ?E ?w filter_3bhk))) = snd ?w"
    by simp
  have res: "fst (snd (search_properties ?E ?w filter_3bhk)) = Inr [sky_villa, lake_view]"
    by (simp add: search_properties_def stub_env_def)
  from search_properties_repeatable [of snd ?E, OF store same] after res
  show ?thesis
    by simp
qed

subsection \<open>The follow-up question and the history\<close>

text \<open>
  In the command-line loop an incomplete interpretation with a question \<open>q\<close> prints the
  question and appends it to the history as an assistant turn.
\<close>

lemma cli_incomplete_appends:
  assumes "dict_get a ''status'' PNone = Inr (PStr ''incomplete'')"
    and "dict_item a ''question'' = Inr (PStr q)"
  shows "handle_analysis E w st a rest =
           ([Print (PStr (nl @ q))], Continue,
            st\<lparr>conversation_history :=
                 conversation_history st @ [\<lparr>role = ''assistant'', content = q\<rparr>]\<rparr>,
            w, rest)"
  using assms by (simp add: handle_analysis_def)

text \<open>
  In the form no branch on the interpretation touches the history: after a run it is the
  history before, with at most the user's text appended.
\<close>

lemma dispatch_history:
  "conversation_history (fst (snd (snd (dispatch E w ss a)))) = conversation_history ss"
  by (auto simp: dispatch_def Let_def split: sum.splits prod.splits)

lemma search_section_history:
  "conversation_history (fst (snd (snd (search_section E w ss inp))))
     \<in> {conversation_history ss,
         conversation_history ss @ [\<lparr>role = ''user'', content = user_input inp\<rparr>]}"
proof (cases "clicked inp = SearchClick \<and> str_strip (user_input inp) \<noteq> []")
  case False
  then show ?thesis by (auto simp: search_section_def)
next
  case True
  obtain ev0 r0 w1
    where aq: "analyze_query E w (user_input inp) (conversation_history ss) = (ev0, r0, w1)"
    by (cases "analyze_query E w (user_input inp) (conversation_history ss)") auto
  show ?thesis
  proof (cases r0)
    case (Inl e)
    with True aq show ?thesis by (simp add: search_section_def)
  next
    case (Inr a)
    let ?ss1 = "ss\<lparr>conversation_history :=
                     conversation_history ss @ [\<lparr>role = ''user'', content = user_input inp\<rparr>]\<rparr>"
    from dispatch_history [of E w1 ?ss1 a]
    have "conversation_history (fst (snd (snd (dispatch E w1 ?ss1 a))))
            = conversation_history ss @ [\<lparr>role = ''user'', content = user_input inp\<rparr>]"
      by simp
    with True aq Inr show ?thesis
      by (auto simp: search_section_def Let_def split: sum.splits prod.splits)
  qed
qed

text \<open>
  C1, at a concrete input. The user asks for a flat and the model answers with an
  incomplete interpretation whose question is \<^verbatim>\<open>Which area?\<close>. The form stores the
  question as the pending one, but its history holds the user's turn only; the
  command-line loop, on the same reply, holds the user's turn and the assistant's.
\<close>

theorem form_leaves_question_out_of_history:
  "conversation_history
     (fst (snd (snd (app_run (stub_env [Some incomplete_text] [(incomplete_text, incomplete_reply)])
                       (0, []) init_session
                       \<lparr>user_input = ''I want a flat'', clarification = [],
                        clicked = SearchClick\<rparr>))))
     = [\<lparr>role = ''user'', content = ''I want a flat''\<rparr>]
   \<and> last_question
     (fst (snd (snd (app_run (stub_env [Some incomplete_text] [(incomplete_text, incomplete_reply)])
                       (0, []) init_session
                       \<lparr>user_input = ''I want a flat'', clarification = [],
                        clicked = SearchClick\<rparr>))))
     = PStr ''Which area?''
   \<and> conversation_history
     (fst (snd (snd (loop_body (stub_env [Some incomplete_text] [(incomplete_text, incomplete_reply)])
                       (0, []) start [''I want a flat'']))))
     = [\<lparr>role = ''user'', content = ''I want a flat''\<rparr>,
        \<lparr>role = ''assistant'', content = ''Which area?''\<rparr>]"
proof -
  let ?E = "stub_env [Some incomplete_text] [(incomplete_text, incomplete_reply)]"
  let ?inp = "\<lparr>user_input = ''I want a flat'', clarification = [], clicked = SearchClick\<rparr>"
  have "conversation_history (fst (snd (snd (app_run ?E (0, []) init_session ?inp))))
          = [\<lparr>role = ''user'', content = ''I want a flat''\<rparr>]"
    by code_simp
  moreover have "last_question (fst (snd (snd (app_run ?E (0, []) init_session ?inp))))
          = PStr ''Which area?''"
    by code_simp
  moreover have "conversation_history
          (fst (snd (snd (loop_body ?E (0, []) start [''I want a flat'']))))
          = [\<lparr>role = ''user'', content = ''I want a flat''\<rparr>,
             \<lparr>role = ''assistant'', content = ''Which area?''\<rparr>]"
    by code_simp
  ultimately show ?thesis
    by simp
qed

end
